theory Spec2Isabelle
  imports Complex_Main "HOL-Library.Sublist"
begin

section \<open>Sea-level pressure to inverse barometer effect (slp2ibe.py)\<close>

text \<open>
  The script reads a pressure field \<open>msl(t,y,x)\<close>, subtracts at every grid cell the
  temporal mean of that cell and scales the difference by \<open>-1/(rho g)\<close>:
  \<^verbatim>\<open>
  def slp_to_ibe(P, rho=1028.0, g=9.80665, P_ref=None):
      P_ref = np.nanmean(P, axis=0)  # P = P(t,y,x)
      h_ibe = (-1 / (rho * g)) * (P - P_ref[np.newaxis, :, :])  # m
      return h_ibe
  \<close>
  The embedding below follows these two lines operation by operation: the reduction
  \<open>np.nanmean(_, axis=0)\<close>, the scalar \<open>-1 / (rho * g)\<close>, the index expression
  \<open>_[np.newaxis, :, :]\<close>, the broadcasting subtraction and the multiplication by the
  scalar.
\<close>

subsection \<open>Cells\<close>

text \<open>
  A cell of a float64 array is not-a-number, an infinity or a finite number. What is
  modelled of float64 arithmetic is what changes a result in kind: a result at or beyond
  the overflow threshold \<open>2^1024 - 2^970\<close> (the midpoint between the largest finite
  value and \<open>2^1024\<close>) is an infinity, and not-a-number and the infinities propagate as
  IEEE 754 prescribes. A finite result within the range is kept as an exact real:
  rounding is not modelled, a nonzero result too small for the format is kept as it is,
  and zero has no sign.
\<close>

datatype fval = NaN | PInf | NInf | Val real

definition overflow_bound :: real where
  "overflow_bound = 2 ^ 1024 - 2 ^ 970"

definition float64 :: "real \<Rightarrow> fval" where
  "float64 r =
     (if overflow_bound \<le> r then PInf else if r \<le> - overflow_bound then NInf else Val r)"

fun is_nan :: "fval \<Rightarrow> bool" where
  "is_nan NaN = True"
| "is_nan _ = False"

fun fneg :: "fval \<Rightarrow> fval" where
  "fneg NaN = NaN"
| "fneg PInf = NInf"
| "fneg NInf = PInf"
| "fneg (Val a) = Val (- a)"

fun fadd :: "fval \<Rightarrow> fval \<Rightarrow> fval" where
  "fadd NaN _ = NaN"
| "fadd _ NaN = NaN"
| "fadd (Val a) (Val b) = float64 (a + b)"
| "fadd PInf NInf = NaN"
| "fadd NInf PInf = NaN"
| "fadd PInf _ = PInf"
| "fadd NInf _ = NInf"
| "fadd (Val a) b = b"

definition fsub :: "fval \<Rightarrow> fval \<Rightarrow> fval" where
  "fsub a b = fadd a (fneg b)"

text \<open>
  The sign of a value that is not not-a-number, and the infinity of a sign; a product or
  quotient of sign zero that involves an infinity or a zero divisor is not-a-number.
\<close>

fun fsign :: "fval \<Rightarrow> real" where
  "fsign NaN = 0"
| "fsign PInf = 1"
| "fsign NInf = - 1"
| "fsign (Val a) = sgn a"

definition inf_of :: "real \<Rightarrow> fval" where
  "inf_of s = (if s = 0 then NaN else if 0 < s then PInf else NInf)"

fun fmul :: "fval \<Rightarrow> fval \<Rightarrow> fval" where
  "fmul NaN _ = NaN"
| "fmul _ NaN = NaN"
| "fmul (Val a) (Val b) = float64 (a * b)"
| "fmul a b = inf_of (fsign a * fsign b)"

text \<open>
  A finite number over an infinity is zero, an infinity over an infinity is
  not-a-number, and a zero divisor (taken as \<open>+0\<close>) gives an infinity, or not-a-number
  for \<open>0/0\<close>: numpy warns and does not raise.
\<close>

fun fdiv :: "fval \<Rightarrow> fval \<Rightarrow> fval" where
  "fdiv NaN _ = NaN"
| "fdiv _ NaN = NaN"
| "fdiv (Val a) (Val b) = (if b = 0 then inf_of (sgn a) else float64 (a / b))"
| "fdiv (Val a) _ = Val 0"
| "fdiv a (Val b) = inf_of (fsign a * (if b < 0 then - 1 else 1))"
| "fdiv _ _ = NaN"

text \<open>The cell that takes the place of a not-a-number cell in the sum of \<open>np.nanmean\<close>.\<close>

fun nan_to_zero :: "fval \<Rightarrow> fval" where
  "nan_to_zero NaN = Val 0"
| "nan_to_zero v = v"

text \<open>A sum along an axis accumulates from the first entry to the last.\<close>

definition fsum :: "fval list \<Rightarrow> fval" where
  "fsum xs = foldl fadd (Val 0) xs"

subsection \<open>Arrays\<close>

text \<open>
  An n-dimensional array is its shape and its cells in row-major (C) order, as numpy
  stores a contiguous array. A record is an array when the number of cells is the
  product of the shape.
\<close>

record ndarray =
  shape :: "nat list"
  cells :: "fval list"

definition wf_array :: "ndarray \<Rightarrow> bool" where
  "wf_array A \<longleftrightarrow> length (cells A) = prod_list (shape A)"

definition ndim :: "ndarray \<Rightarrow> nat" where
  "ndim A = length (shape A)"

text \<open>Flat offset of a multi-index, and the multi-index of a flat offset.\<close>

fun ravel :: "nat list \<Rightarrow> nat list \<Rightarrow> nat" where
  "ravel (d # ds) (k # ks) = k * prod_list ds + ravel ds ks"
| "ravel _ _ = 0"

fun unravel :: "nat list \<Rightarrow> nat \<Rightarrow> nat list" where
  "unravel [] i = []"
| "unravel (d # ds) i = (i div prod_list ds) # unravel ds (i mod prod_list ds)"

text \<open>The cell \<open>A[idx]\<close> for a multi-index within the shape.\<close>

definition cell :: "ndarray \<Rightarrow> nat list \<Rightarrow> fval" where
  "cell A idx = cells A ! ravel (shape A) idx"

datatype error =
  AxisError | IndexError | ValueError | ZeroDivisionError
  | KeyError | AttributeError | FileNotFoundError

subsection \<open>The numpy operations of the transform\<close>

text \<open>
  \<open>np.nanmean\<close> on one slice of a float array: the sum with not-a-number replaced by
  zero, divided by the count of the cells that are not not-a-number. A slice without such
  a cell gives \<open>0/0\<close>, that is not-a-number, with a warning and no exception.
\<close>

definition nanmean_1d :: "fval list \<Rightarrow> fval" where
  "nanmean_1d xs =
     (let cnt = length (filter (\<lambda>v. \<not> is_nan v) xs);
          tot = fsum (map nan_to_zero xs)
      in fdiv tot (Val (real cnt)))"

text \<open>
  \<open>np.nanmean(A, axis=0)\<close> on a float array: the first axis is reduced, the result
  has the remaining shape. On a 0-dimensional float array the reduction lets \<open>axis=0\<close>
  through and returns the mean of the one cell (arrays of integers, which would raise an
  axis error here, are not modelled).
\<close>

definition nanmean_axis0 :: "ndarray \<Rightarrow> error + ndarray" where
  "nanmean_axis0 A =
     (case shape A of
        [] \<Rightarrow> Inr \<lparr>shape = [], cells = [nanmean_1d [cells A ! 0]]\<rparr>
      | n # rest \<Rightarrow>
          let inner = prod_list rest in
          Inr \<lparr>shape = rest,
               cells = map (\<lambda>j. nanmean_1d (map (\<lambda>t. cells A ! (t * inner + j)) [0..<n]))
                         [0..<inner]\<rparr>)"

text \<open>
  \<open>A[np.newaxis, :, :]\<close>: two slices need two axes (more axes are taken whole); a
  new axis of length one is put in front.
\<close>

definition index_newaxis :: "ndarray \<Rightarrow> error + ndarray" where
  "index_newaxis A =
     (if ndim A < 2 then Inl IndexError else Inr (A\<lparr>shape := 1 # shape A\<rparr>))"

text \<open>
  Broadcasting: shapes are aligned at the right and padded with ones at the left; two
  extents agree when they are equal or one of them is one.
\<close>

definition pad_shape :: "nat \<Rightarrow> nat list \<Rightarrow> nat list" where
  "pad_shape n sh = replicate (n - length sh) 1 @ sh"

fun broadcast_dims :: "nat list \<Rightarrow> nat list \<Rightarrow> nat list option" where
  "broadcast_dims [] [] = Some []"
| "broadcast_dims (a # as) (b # bs) =
     (if a = b \<or> b = 1 then map_option ((#) a) (broadcast_dims as bs)
      else if a = 1 then map_option ((#) b) (broadcast_dims as bs)
      else None)"
| "broadcast_dims _ _ = None"

definition broadcast_shapes :: "nat list \<Rightarrow> nat list \<Rightarrow> nat list option" where
  "broadcast_shapes sa sb =
     (let n = max (length sa) (length sb)
      in broadcast_dims (pad_shape n sa) (pad_shape n sb))"

text \<open>An axis of extent one is read at index zero whatever the index of the result.\<close>

fun bcast_index :: "nat list \<Rightarrow> nat list \<Rightarrow> nat list" where
  "bcast_index (d # ds) (k # ks) = (if d = 1 then 0 else k) # bcast_index ds ks"
| "bcast_index _ _ = []"

definition nd_sub :: "ndarray \<Rightarrow> ndarray \<Rightarrow> error + ndarray" where
  "nd_sub A B =
     (case broadcast_shapes (shape A) (shape B) of
        None \<Rightarrow> Inl ValueError
      | Some sh \<Rightarrow>
          let sa = pad_shape (length sh) (shape A);
              sb = pad_shape (length sh) (shape B)
          in Inr \<lparr>shape = sh,
                  cells = map (\<lambda>i. let idx = unravel sh i
                                    in fsub (cells A ! ravel sa (bcast_index sa idx))
                                            (cells B ! ravel sb (bcast_index sb idx)))
                            [0..<prod_list sh]\<rparr>)"

text \<open>
  An array and a scalar: \<open>k * A\<close>, \<open>A * q\<close>, \<open>A / p\<close> and \<open>A + c\<close>, cell by cell.
\<close>

definition scalar_mul :: "fval \<Rightarrow> ndarray \<Rightarrow> ndarray" where
  "scalar_mul k A = A\<lparr>cells := map (fmul k) (cells A)\<rparr>"





subsection \<open>Python floats\<close>

text \<open>
  \<open>rho\<close> and \<open>g\<close> are Python floats, finite numbers. Their product is a float64
  product: it overflows to an infinity, and it is zero when the exact product is at most
  \<open>2^-1075\<close>, half the smallest subnormal (round to nearest, ties to even). The
  second matters because Python raises on a zero divisor, where numpy does not.
\<close>

definition underflow_bound :: real where
  "underflow_bound = 1 / 2 ^ 1075"

definition py_mul :: "real \<Rightarrow> real \<Rightarrow> fval" where
  "py_mul a b = (if \<bar>a * b\<bar> \<le> underflow_bound then Val 0 else float64 (a * b))"

definition py_div :: "fval \<Rightarrow> fval \<Rightarrow> error + fval" where
  "py_div a b = (if b = Val 0 then Inl ZeroDivisionError else Inr (fdiv a b))"

subsection \<open>slp_to_ibe\<close>

text \<open>
  What a caller may pass for the keyword \<open>P_ref\<close>: nothing, a constant or an array.
\<close>

datatype pyarg = PyNone | PyFloat real | PyArray ndarray

text \<open>
  The parameter \<open>P_ref\<close> is rebound by the first statement, so the bound variable of
  the case below shadows it. In the second statement Python evaluates the scalar
  \<open>-1 / (rho * g)\<close> first (a zero divisor raises), then the index expression, then the
  subtraction, then the product.
\<close>

definition slp_to_ibe :: "ndarray \<Rightarrow> real \<Rightarrow> real \<Rightarrow> pyarg \<Rightarrow> error + ndarray" where
  "slp_to_ibe P rho g P_ref =
     (case nanmean_axis0 P of
        Inl e \<Rightarrow> Inl e
      | Inr P_ref \<Rightarrow>
          (case py_div (Val (- 1)) (py_mul rho g) of
             Inl e \<Rightarrow> Inl e
           | Inr k \<Rightarrow>
               (case index_newaxis P_ref of
                  Inl e \<Rightarrow> Inl e
                | Inr R \<Rightarrow>
                    (case nd_sub P R of
                       Inl e \<Rightarrow> Inl e
                     | Inr D \<Rightarrow> Inr (scalar_mul k D)))))"

definition rho_default :: real where
  "rho_default = 1028"

definition g_default :: real where
  "g_default = 980665 / 100000"

subsection \<open>Time series and their means\<close>

text \<open>
  The mean of the specification, in its words: the mean of the entries of a time series
  that are not not-a-number, and not-a-number when there is none.
\<close>

definition mean_excluding_nan :: "fval list \<Rightarrow> fval" where
  "mean_excluding_nan xs =
     (let vs = filter (\<lambda>v. \<not> is_nan v) xs
      in if vs = [] then NaN else fdiv (fsum vs) (Val (real (length vs))))"

text \<open>The time series of a (time, lat, lon) array at one location.\<close>

definition time_series :: "ndarray \<Rightarrow> nat \<Rightarrow> nat \<Rightarrow> fval list" where
  "time_series A y x =
     (case shape A of [] \<Rightarrow> [] | T # _ \<Rightarrow> map (\<lambda>t. cell A [t, y, x]) [0..<T])"



text \<open>A value as the arithmetic returns it: a finite number is within the range.\<close>

definition in_range :: "fval \<Rightarrow> bool" where
  "in_range v = (case v of Val r \<Rightarrow> \<bar>r\<bar> < overflow_bound | _ \<Rightarrow> True)"

subsection \<open>The output file name\<close>

text \<open>
  \<^verbatim>\<open>outfile = infile.replace("SLP_", "IBE_").replace(".nc", ".h5")\<close>

  \<open>str.replace\<close> scans from the left and replaces every occurrence of \<open>old\<close> that
  does not overlap an earlier one; an empty \<open>old\<close> matches before every character and
  at the end.
\<close>

fun str_replace :: "string \<Rightarrow> string \<Rightarrow> string \<Rightarrow> string" where
  "str_replace [] new s = new @ concat (map (\<lambda>c. c # new) s)"
| "str_replace old new [] = []"
| "str_replace old new (c # cs) =
     (if prefix old (c # cs) then new @ str_replace old new (drop (length old) (c # cs))
      else c # str_replace old new cs)"

definition outfile_name :: "string \<Rightarrow> string" where
  "outfile_name infile = str_replace ''.nc'' ''.h5'' (str_replace ''SLP_'' ''IBE_'' infile)"

text \<open>
  The derivation in the words of the specification: the prefix \<open>SLP_\<close> becomes
  \<open>IBE_\<close>, the extension \<open>.nc\<close> becomes \<open>.h5\<close>, the rest of the name stays.
\<close>

definition spec_outfile_name :: "string \<Rightarrow> string" where
  "spec_outfile_name infile =
     (let s = (if prefix ''SLP_'' infile then ''IBE_'' @ drop 4 infile else infile)
      in if suffix ''.nc'' s then take (length s - 3) s @ ''.h5'' else s)"

subsection \<open>main\<close>

text \<open>
  The input container is a dictionary of variables, each with its decoded array (what
  \<open>var[:]\<close> returns) and its attributes; the files that can be opened are a map from
  paths. The run returns the name of the output file and the datasets created in it, in
  the order of creation. The lines printed to standard output are not part of the model,
  but the calls made to print them are: \<open>np.diff\<close> refuses a 0-dimensional array.
  The plotting branch under \<open>if 0:\<close> never runs. The variable \<open>msl\<close> reaches
  \<open>slp_to_ibe\<close> as its decoded array of floats, missing entries as not-a-number, which
  the specification asks of the reading layer; what netCDF4 does with masked entries is
  not modelled. Creating the output container and its datasets is taken to succeed; a
  failure there would only end a run that the model lets complete.
\<close>

record ncvar =
  var_data :: ndarray
  var_attrs :: "string \<rightharpoonup> real"

type_synonym dataset = "string \<rightharpoonup> ncvar"

definition SLPFILE :: string where
  "SLPFILE = ''SLP_antarctica_3h_19900101_20170331.nc''"

definition XIBE :: string where "XIBE = ''longitude''"
definition YIBE :: string where "YIBE = ''latitude''"
definition TIBE :: string where "TIBE = ''time''"
definition ZIBE :: string where "ZIBE = ''msl''"

definition bind_err :: "error + 'a \<Rightarrow> ('a \<Rightarrow> error + 'b) \<Rightarrow> error + 'b" where
  "bind_err m f = (case m of Inl e \<Rightarrow> Inl e | Inr x \<Rightarrow> f x)"

definition lookup :: "error \<Rightarrow> ('k \<rightharpoonup> 'v) \<Rightarrow> 'k \<Rightarrow> error + 'v" where
  "lookup e m k = (case m k of None \<Rightarrow> Inl e | Some v \<Rightarrow> Inr v)"

definition np_diff :: "ndarray \<Rightarrow> error + unit" where
  "np_diff A = (if ndim A = 0 then Inl ValueError else Inr ())"

definition infile_of :: "string list \<Rightarrow> string" where
  "infile_of argv = (if drop 1 argv \<noteq> [] then argv ! 1 else SLPFILE)"

definition main ::
  "string list \<Rightarrow> (string \<rightharpoonup> dataset) \<Rightarrow> error + string \<times> (string \<times> ndarray) list" where
  "main argv files =
     (let infile = infile_of argv in
      bind_err (lookup FileNotFoundError files infile) (\<lambda>ds.
      bind_err (lookup KeyError ds XIBE) (\<lambda>vlon.
      bind_err (lookup KeyError ds YIBE) (\<lambda>vlat.
      bind_err (lookup KeyError ds TIBE) (\<lambda>vtime.
      bind_err (lookup KeyError ds ZIBE) (\<lambda>msl.
      bind_err (lookup AttributeError (var_attrs msl) ''scale_factor'') (\<lambda>scale.
      bind_err (lookup AttributeError (var_attrs msl) ''add_offset'') (\<lambda>offset.
      bind_err (lookup AttributeError (var_attrs msl) ''missing_value'') (\<lambda>missing.
      let lon = var_data vlon; lat = var_data vlat; time = var_data vtime in
      bind_err (np_diff lon) (\<lambda>_.
      bind_err (np_diff lat) (\<lambda>_.
      bind_err (np_diff time) (\<lambda>_.
      bind_err (slp_to_ibe (var_data msl) rho_default g_default PyNone) (\<lambda>ibe.
      let outfile = outfile_name infile in
      Inr (outfile, [(''lon'', lon), (''lat'', lat), (''time'', time), (''ibe'', ibe)]))))))))))))))"

subsection \<open>Concrete inputs\<close>

text \<open>
  The concrete scenario of the specification: two time steps on a 2 x 2 grid, 101300 Pa
  at the first step and 101500 Pa at the second.
\<close>

definition P_example :: ndarray where
  "P_example =
     \<lparr>shape = [2, 2, 2],
      cells = [Val 101300, Val 101300, Val 101300, Val 101300,
               Val 101500, Val 101500, Val 101500, Val 101500]\<rparr>"

text \<open>A field with a location that is missing at every time step.\<close>

definition P_missing :: ndarray where
  "P_missing = \<lparr>shape = [2, 1, 2], cells = [NaN, Val 101300, NaN, Val 101500]\<rparr>"





text \<open>Arrays that are not 3-dimensional: a scalar, a vector, a matrix, a 4-dimensional array.\<close>

definition P_0d :: ndarray where
  "P_0d = \<lparr>shape = [], cells = [Val 101300]\<rparr>"

definition P_1d :: ndarray where
  "P_1d = \<lparr>shape = [2], cells = [Val 101300, Val 101500]\<rparr>"

definition P_2d :: ndarray where
  "P_2d = \<lparr>shape = [2, 2], cells = [Val 101300, Val 101300, Val 101500, Val 101500]\<rparr>"

definition P_4d :: ndarray where
  "P_4d = \<lparr>shape = [2, 1, 1, 1], cells = [Val 101300, Val 101500]\<rparr>"

text \<open>A small input file for concrete runs: a 2 x 2 grid at two time steps.\<close>

definition lon_example :: ndarray where
  "lon_example = \<lparr>shape = [2], cells = [Val (- 125 / 2), Val (- 247 / 4)]\<rparr>"

definition lat_example :: ndarray where
  "lat_example = \<lparr>shape = [2], cells = [Val (- 135 / 2), Val (- 273 / 4)]\<rparr>"

definition time_example :: ndarray where
  "time_example = \<lparr>shape = [2], cells = [Val 788928, Val 788931]\<rparr>"

definition dataset_example :: dataset where
  "dataset_example =
     [''longitude'' \<mapsto> \<lparr>var_data = lon_example, var_attrs = Map.empty\<rparr>,
      ''latitude'' \<mapsto> \<lparr>var_data = lat_example, var_attrs = Map.empty\<rparr>,
      ''time'' \<mapsto> \<lparr>var_data = time_example, var_attrs = Map.empty\<rparr>,
      ''msl'' \<mapsto> \<lparr>var_data = P_example,
                   var_attrs = [''scale_factor'' \<mapsto> 1 / 4, ''add_offset'' \<mapsto> 100000,
                                ''missing_value'' \<mapsto> - 32767]\<rparr>]"

definition argv_example :: "string list" where
  "argv_example = [''slp2ibe.py'', ''SLP_antarctica_3h_19900101_20171031.nc'']"

definition files_example :: "string \<rightharpoonup> dataset" where
  "files_example = [''SLP_antarctica_3h_19900101_20171031.nc'' \<mapsto> dataset_example]"

section \<open>Properties\<close>

subsection \<open>Offsets, broadcasting and the result cell by cell\<close>

lemma ravel_unravel: "i < prod_list sh \<Longrightarrow> ravel sh (unravel sh i) = i"
proof (induction sh arbitrary: i)
  case Nil then show ?case by simp
next
  case (Cons d ds)
  from Cons.prems have pos: "0 < prod_list ds" by (cases "prod_list ds = 0") auto
  then have "i mod prod_list ds < prod_list ds" by simp
  then have "ravel ds (unravel ds (i mod prod_list ds)) = i mod prod_list ds"
    by (rule Cons.IH)
  then show ?case by simp
qed

lemma bcast_index_unravel:
  "i < prod_list sh \<Longrightarrow> bcast_index sh (unravel sh i) = unravel sh i"
proof (induction sh arbitrary: i)
  case Nil then show ?case by simp
next
  case (Cons d ds)
  from Cons.prems have pos: "0 < prod_list ds" by (cases "prod_list ds = 0") auto
  then have m: "i mod prod_list ds < prod_list ds" by simp
  have "d = 1 \<Longrightarrow> i div prod_list ds = 0"
    using Cons.prems by simp
  with Cons.IH[OF m] show ?case by simp
qed

lemma broadcast_dims_same: "broadcast_dims sh sh = Some sh"
  by (induction sh) auto

lemma broadcast_shapes_lead:
  "broadcast_shapes (n # rest) (1 # rest) = Some (n # rest)"
  by (simp add: broadcast_shapes_def pad_shape_def broadcast_dims_same)

lemma nd_sub_lead:
  assumes sh: "shape P = n # rest"
  shows "nd_sub P \<lparr>shape = 1 # rest, cells = cs\<rparr> =
    Inr \<lparr>shape = n # rest,
         cells = map (\<lambda>i. fsub (cells P ! i) (cs ! (i mod prod_list rest)))
                   [0..<n * prod_list rest]\<rparr>"
proof -
  let ?R = "\<lparr>shape = 1 # rest, cells = cs\<rparr>"
  have a: "ravel (n # rest) (bcast_index (n # rest) (unravel (n # rest) i)) = i"
    if "i < n * prod_list rest" for i
    using that by (simp only: bcast_index_unravel ravel_unravel prod_list.Cons)
  have b: "ravel (1 # rest) (bcast_index (1 # rest) (unravel (n # rest) i)) = i mod prod_list rest"
    if "i < n * prod_list rest" for i
  proof -
    from that have pos: "0 < prod_list rest" by (cases "prod_list rest = 0") auto
    then have m: "i mod prod_list rest < prod_list rest" by simp
    show ?thesis
      by (simp add: bcast_index_unravel[OF m] ravel_unravel[OF m])
  qed
  have bs: "broadcast_shapes (shape P) (shape ?R) = Some (n # rest)"
    by (simp only: sh ndarray.simps broadcast_shapes_lead)
  have pa: "pad_shape (length (n # rest)) (shape P) = n # rest"
    by (simp add: sh pad_shape_def)
  have pb: "pad_shape (length (n # rest)) (shape ?R) = 1 # rest"
    by (simp add: pad_shape_def)
  have c: "map (\<lambda>i. let idx = unravel (n # rest) i
                    in fsub (cells P ! ravel (n # rest) (bcast_index (n # rest) idx))
                            (cells ?R ! ravel (1 # rest) (bcast_index (1 # rest) idx)))
             [0..<prod_list (n # rest)]
         = map (\<lambda>i. fsub (cells P ! i) (cs ! (i mod prod_list rest))) [0..<n * prod_list rest]"
    unfolding Let_def by (rule map_cong) (simp_all only: a b prod_list.Cons ndarray.simps atLeastLessThan_iff set_upt)
  show ?thesis
    unfolding nd_sub_def bs option.case Let_def pa pb
    using c unfolding Let_def by simp
qed

lemma offset_less:
  assumes "k < n" "r < (m::nat)"
  shows "k * m + r < n * m"
proof -
  have "k * m + r < k * m + m" using assms(2) by simp
  also have "\<dots> = Suc k * m" by simp
  also have "\<dots> \<le> n * m" using assms(1) by (intro mult_le_mono1) simp
  finally show ?thesis .
qed

lemma ravel3:
  "ravel [T, Y, X] [t, y, x] = t * (Y * X) + (y * X + x)"
  by simp

lemma ravel3_less:
  assumes "t < T" "y < Y" "x < (X::nat)"
  shows "t * (Y * X) + (y * X + x) < T * (Y * X)"
  by (intro offset_less assms)

lemma ravel3_mod:
  assumes "y < Y" "x < (X::nat)"
  shows "(t * (Y * X) + (y * X + x)) mod (Y * X) = y * X + x"
  using offset_less[OF assms] by simp


lemma slp_general:
  assumes sh: "shape P = n # rest" and r: "2 \<le> length rest" and nz: "py_mul rho g \<noteq> Val 0"
  shows "slp_to_ibe P rho g pr =
    Inr \<lparr>shape = n # rest,
         cells = map (\<lambda>i. fmul (fdiv (Val (- 1)) (py_mul rho g))
                        (fsub (cells P ! i)
                           (nanmean_1d (map (\<lambda>t. cells P ! (t * prod_list rest + i mod prod_list rest))
                                         [0..<n]))))
                   [0..<n * prod_list rest]\<rparr>"
proof -
  let ?inner = "prod_list rest"
  let ?k = "fdiv (Val (- 1)) (py_mul rho g)"
  let ?m = "map (\<lambda>j. nanmean_1d (map (\<lambda>t. cells P ! (t * ?inner + j)) [0..<n])) [0..<?inner]"
  have nm: "nanmean_axis0 P = Inr \<lparr>shape = rest, cells = ?m\<rparr>"
    by (simp add: nanmean_axis0_def sh Let_def)
  have pd: "py_div (Val (- 1)) (py_mul rho g) = Inr ?k"
    using nz by (simp add: py_div_def)
  have ix: "index_newaxis \<lparr>shape = rest, cells = ?m\<rparr> = Inr \<lparr>shape = 1 # rest, cells = ?m\<rparr>"
    using r by (simp add: index_newaxis_def ndim_def)
  have sub: "nd_sub P \<lparr>shape = 1 # rest, cells = ?m\<rparr> =
      Inr \<lparr>shape = n # rest,
           cells = map (\<lambda>i. fsub (cells P ! i) (?m ! (i mod ?inner))) [0..<n * ?inner]\<rparr>"
    by (rule nd_sub_lead[OF sh])
  have cs: "map (fmul ?k)
              (map (\<lambda>i. fsub (cells P ! i) (?m ! (i mod ?inner))) [0..<n * ?inner])
          = map (\<lambda>i. fmul ?k
                        (fsub (cells P ! i)
                           (nanmean_1d (map (\<lambda>t. cells P ! (t * ?inner + i mod ?inner)) [0..<n]))))
                   [0..<n * ?inner]"
  proof -
    have "?m ! (i mod ?inner) = nanmean_1d (map (\<lambda>t. cells P ! (t * ?inner + i mod ?inner)) [0..<n])"
      if "i < n * ?inner" for i
    proof -
      from that have "0 < ?inner" by (cases "?inner = 0") auto
      then have "i mod ?inner < ?inner" by simp
      then show ?thesis by simp
    qed
    then show ?thesis by simp
  qed
  show ?thesis
    unfolding slp_to_ibe_def nm sum.case pd ix sub
    using cs by (simp add: scalar_mul_def)
qed

lemma slp_3d:
  assumes sh: "shape P = [T, Y, X]" and nz: "py_mul rho g \<noteq> Val 0"
  shows "slp_to_ibe P rho g pr =
    Inr \<lparr>shape = [T, Y, X],
         cells = map (\<lambda>i. fmul (fdiv (Val (- 1)) (py_mul rho g))
                        (fsub (cells P ! i)
                           (nanmean_1d (map (\<lambda>t. cells P ! (t * (Y * X) + i mod (Y * X)))
                                         [0..<T]))))
                   [0..<T * (Y * X)]\<rparr>"
  using slp_general[OF sh _ nz, of pr] by simp

lemma slp_3d_cell:
  assumes sh: "shape P = [T, Y, X]" and nz: "py_mul rho g \<noteq> Val 0"
    and res: "slp_to_ibe P rho g pr = Inr h"
    and b: "t < T" "y < Y" "x < X"
  shows "cell h [t, y, x] =
     fmul (fdiv (Val (- 1)) (py_mul rho g))
       (fsub (cell P [t, y, x]) (nanmean_1d (map (\<lambda>t'. cell P [t', y, x]) [0..<T])))"
proof -
  let ?i = "t * (Y * X) + (y * X + x)"
  let ?k = "fdiv (Val (- 1)) (py_mul rho g)"
  have h: "h = \<lparr>shape = [T, Y, X],
         cells = map (\<lambda>i. fmul ?k
                        (fsub (cells P ! i)
                           (nanmean_1d (map (\<lambda>t. cells P ! (t * (Y * X) + i mod (Y * X)))
                                         [0..<T]))))
                   [0..<T * (Y * X)]\<rparr>"
    using res unfolding slp_3d[OF sh nz] by simp
  have lt: "?i < T * (Y * X)" by (rule ravel3_less[OF b])
  have md: "?i mod (Y * X) = y * X + x" by (rule ravel3_mod[OF b(2,3)])
  have "cell h [t, y, x] = cells h ! ?i"
    by (simp add: cell_def h)
  also have "\<dots> = fmul ?k
                        (fsub (cells P ! ?i)
                           (nanmean_1d (map (\<lambda>t. cells P ! (t * (Y * X) + ?i mod (Y * X)))
                                         [0..<T])))"
    unfolding h using lt by simp
  also have "\<dots> = fmul ?k
       (fsub (cell P [t, y, x]) (nanmean_1d (map (\<lambda>t'. cell P [t', y, x]) [0..<T])))"
    unfolding md by (simp add: cell_def sh)
  finally show ?thesis .
qed

lemma slp_3d_wf:
  assumes sh: "shape P = [T, Y, X]" and nz: "py_mul rho g \<noteq> Val 0"
    and res: "slp_to_ibe P rho g pr = Inr h"
  shows "shape h = [T, Y, X]" and "wf_array h"
  using res unfolding slp_3d[OF sh nz] by (auto simp: wf_array_def)

lemma time_series_3d:
  "shape A = [T, Y, X] \<Longrightarrow> time_series A y x = map (\<lambda>t. cell A [t, y, x]) [0..<T]"
  by (simp add: time_series_def)

text \<open>The float64 range and the Python scalars.\<close>

lemma overflow_bound_gt: "2 ^ 1023 < overflow_bound"
  by (simp add: overflow_bound_def)

lemma float64_Val: "\<bar>r\<bar> < overflow_bound \<Longrightarrow> float64 r = Val r"
  by (auto simp: float64_def)

lemma py_mul_nonzero:
  "underflow_bound < \<bar>a * b\<bar> \<Longrightarrow> py_mul a b \<noteq> Val 0"
  by (auto simp: py_mul_def float64_def underflow_bound_def)

lemma py_mul_positive:
  assumes "0 < rho" and "0 < g" and "underflow_bound < rho * g"
  shows "py_mul rho g \<noteq> Val 0"
  using assms by (intro py_mul_nonzero) simp

lemma py_mul_default: "py_mul rho_default g_default = Val (rho_default * g_default)"
  by (simp add: py_mul_def float64_def rho_default_def g_default_def underflow_bound_def
      overflow_bound_def)

lemma scalar_default:
  "fdiv (Val (- 1)) (py_mul rho_default g_default) = Val (- 1 / (rho_default * g_default))"
  unfolding py_mul_default
  by (simp add: float64_def rho_default_def g_default_def overflow_bound_def)

lemma py_mul_default_nonzero: "py_mul rho_default g_default \<noteq> Val 0"
  unfolding py_mul_default by (simp add: rho_default_def g_default_def)

subsection \<open>The transform\<close>

lemma in_range_float64: "in_range (float64 r)"
  by (auto simp: in_range_def float64_def)

lemma in_range_fadd: "in_range (fadd a b)"
  by (cases a; cases b) (simp_all add: in_range_float64, simp_all add: in_range_def)

lemma fadd_zero: "in_range a \<Longrightarrow> fadd a (Val 0) = a"
  by (cases a) (simp_all add: in_range_def float64_Val)

lemma foldl_fadd_skip_nan:
  "in_range a \<Longrightarrow>
   foldl fadd a (map nan_to_zero xs) = foldl fadd a (filter (\<lambda>v. \<not> is_nan v) xs)"
proof (induction xs arbitrary: a)
  case Nil
  then show ?case by simp
next
  case (Cons x xs)
  show ?case
  proof (cases "is_nan x")
    case True
    then have "x = NaN" by (cases x) simp_all
    with Cons show ?thesis by (simp add: fadd_zero)
  next
    case False
    then have "nan_to_zero x = x" by (cases x) simp_all
    with False Cons.IH[OF in_range_fadd, of a x] show ?thesis by simp
  qed
qed

lemma nanmean_1d_eq: "nanmean_1d xs = mean_excluding_nan xs"
proof -
  have z: "in_range (Val 0)" by (simp add: in_range_def overflow_bound_def)
  have s: "fsum (map nan_to_zero xs) = fsum (filter (\<lambda>v. \<not> is_nan v) xs)"
    unfolding fsum_def by (rule foldl_fadd_skip_nan[OF z])
  show ?thesis
    by (simp add: nanmean_1d_def mean_excluding_nan_def Let_def s)
       (simp add: fsum_def inf_of_def)
qed

text \<open>
  Claim C1, as the code has it. For a pressure array \<open>P\<close> of shape (time, lat, lon) and
  positive \<open>rho\<close> and \<open>g\<close> whose float64 product is not zero, \<open>slp_to_ibe\<close> returns
  an array of that shape whose entry at \<open>(t, y, x)\<close> is
  \<open>(-1/(rho g)) * (P[t,y,x] - P_ref[y,x])\<close>, where \<open>P_ref[y,x]\<close> is the mean of the
  time series of \<open>P\<close> at \<open>(y, x)\<close> with the not-a-number entries left out.
\<close>

theorem slp_to_ibe_formula:
  assumes "wf_array P" and "shape P = [T, Y, X]" and "0 < rho" and "0 < g"
    and "underflow_bound < rho * g"
  shows "\<exists>h. slp_to_ibe P rho g P_ref = Inr h \<and> shape h = [T, Y, X] \<and>
    (\<forall>t<T. \<forall>y<Y. \<forall>x<X.
        cell h [t, y, x] =
          fmul (fdiv (Val (- 1)) (py_mul rho g))
            (fsub (cell P [t, y, x]) (mean_excluding_nan (time_series P y x))))"
proof -
  have nz: "py_mul rho g \<noteq> Val 0" by (rule py_mul_positive[OF assms(3-5)])
  obtain h where h: "slp_to_ibe P rho g P_ref = Inr h" and s: "shape h = [T, Y, X]"
    using slp_3d[OF assms(2) nz, of P_ref] by simp
  show ?thesis
    using h s slp_3d_cell[OF assms(2) nz h]
    by (auto simp: nanmean_1d_eq time_series_3d[OF assms(2)])
qed

lemma P_example_wf: "wf_array P_example" "shape P_example = [2, 2, 2]"
  by (simp_all add: wf_array_def P_example_def)

lemma defaults_positive:
  "0 < rho_default" "0 < g_default" "underflow_bound < rho_default * g_default"
  by (simp_all add: rho_default_def g_default_def underflow_bound_def)

lemma P_example_series:
  "time_series P_example y x = [cell P_example [0, y, x], cell P_example [1, y, x]]"
  by (simp add: time_series_3d[OF P_example_wf(2)] upt_rec numeral_2_eq_2)





theorem slp_to_ibe_formula_witness:
  "wf_array P_example \<and> shape P_example = [2, 2, 2] \<and>
   0 < rho_default \<and> 0 < g_default \<and> underflow_bound < rho_default * g_default \<and>
   (\<exists>h. slp_to_ibe P_example rho_default g_default PyNone = Inr h \<and>
        cell h [0, 0, 0] = Val (100 / (rho_default * g_default)) \<and>
        cell h [1, 1, 1] = Val (- 100 / (rho_default * g_default)))"
proof -
  note w = P_example_wf(1) and s = P_example_wf(2)
  note d = defaults_positive
  obtain h where h: "slp_to_ibe P_example rho_default g_default PyNone = Inr h"
    and c: "\<forall>t<2. \<forall>y<2. \<forall>x<2. cell h [t, y, x] =
          fmul (fdiv (Val (- 1)) (py_mul rho_default g_default))
            (fsub (cell P_example [t, y, x]) (mean_excluding_nan (time_series P_example y x)))"
    using slp_to_ibe_formula[OF w s d, of PyNone] by blast
  have m: "mean_excluding_nan [Val 101300, Val 101500] = Val 101400"
    by (simp add: mean_excluding_nan_def fsum_def float64_def overflow_bound_def)
  have "cell h [0, 0, 0] = Val (100 / (rho_default * g_default))"
    using c[rule_format, of 0 0 0]
    by (simp add: P_example_series scalar_default)
       (simp add: cell_def P_example_def m fsub_def float64_def overflow_bound_def
          rho_default_def g_default_def)
  moreover have "cell h [1, 1, 1] = Val (- 100 / (rho_default * g_default))"
    using c[rule_format, of 1 1 1]
    by (simp add: P_example_series scalar_default)
       (simp add: cell_def P_example_def m fsub_def float64_def overflow_bound_def
          rho_default_def g_default_def)
  ultimately show ?thesis using w s d h by simp
qed

text \<open>
  Claim C1 as stated fails for positive \<open>rho\<close> and \<open>g\<close> whose product underflows:
  with \<open>rho = g = 1e-200\<close> the divisor is zero and Python raises.
\<close>

theorem slp_to_ibe_underflow_counterexample:
  "wf_array P_example \<and> shape P_example = [2, 2, 2] \<and> (0::real) < 1 / 10 ^ 200 \<and>
   slp_to_ibe P_example (1 / 10 ^ 200) (1 / 10 ^ 200) PyNone = Inl ZeroDivisionError"
proof -
  have "py_mul (1 / 10 ^ 200) (1 / 10 ^ 200) = Val 0"
    by (simp add: py_mul_def underflow_bound_def)
  then show ?thesis
    by (simp add: slp_to_ibe_def nanmean_axis0_def P_example_def Let_def py_div_def
        wf_array_def)
qed

lemma is_nan_fmul_fsub: "is_nan p \<Longrightarrow> is_nan (fmul c (fsub p m))"
  by (cases p; cases c; cases m) (simp_all add: fsub_def)

text \<open>
  Claim C2. On a pressure array of shape (time, lat, lon), with positive \<open>rho\<close> and
  \<open>g\<close> whose float64 product is not zero (the defaults are such), \<open>slp_to_ibe\<close>
  returns an array and raises nothing, whatever entries are missing: wherever
  \<open>P[t,y,x]\<close> is not-a-number the output at \<open>(t, y, x)\<close> is not-a-number, and where
  the whole time series at \<open>(y, x)\<close> is not-a-number so is the whole output series at
  \<open>(y, x)\<close>.
\<close>

theorem slp_to_ibe_nan_propagates:
  assumes "wf_array P" and "shape P = [T, Y, X]" and "0 < rho" and "0 < g"
    and "underflow_bound < rho * g"
  shows "\<exists>h. slp_to_ibe P rho g P_ref = Inr h \<and>
    (\<forall>t<T. \<forall>y<Y. \<forall>x<X. is_nan (cell P [t, y, x]) \<longrightarrow> is_nan (cell h [t, y, x])) \<and>
    (\<forall>y<Y. \<forall>x<X. (\<forall>v\<in>set (time_series P y x). is_nan v) \<longrightarrow>
                     (\<forall>v\<in>set (time_series h y x). is_nan v))"
proof -
  have nz: "py_mul rho g \<noteq> Val 0" by (rule py_mul_positive[OF assms(3-5)])
  obtain h where h: "slp_to_ibe P rho g P_ref = Inr h"
    using slp_3d[OF assms(2) nz, of P_ref] by simp
  note sh = slp_3d_wf(1)[OF assms(2) nz h]
  note c = slp_3d_cell[OF assms(2) nz h]
  have one: "is_nan (cell h [t, y, x])"
    if "t < T" "y < Y" "x < X" "is_nan (cell P [t, y, x])" for t y x
    using that by (simp add: c is_nan_fmul_fsub)
  have col: "\<forall>v\<in>set (time_series h y x). is_nan v"
    if "y < Y" "x < X" "\<forall>v\<in>set (time_series P y x). is_nan v" for y x
  proof -
    have "is_nan (cell h [t, y, x])" if "t < T" for t
    proof -
      have "cell P [t, y, x] \<in> set (time_series P y x)"
        using \<open>t < T\<close> by (simp add: time_series_3d[OF assms(2)])
      with that(1) \<open>y < Y\<close> \<open>x < X\<close> \<open>\<forall>v\<in>set (time_series P y x). is_nan v\<close> show ?thesis
        by (intro one) auto
    qed
    then show ?thesis by (auto simp: time_series_3d[OF sh])
  qed
  from h one col show ?thesis by blast
qed

theorem slp_to_ibe_nan_propagates_witness:
  "wf_array P_missing \<and> shape P_missing = [2, 1, 2] \<and>
   0 < rho_default \<and> 0 < g_default \<and> underflow_bound < rho_default * g_default \<and>
   is_nan (cell P_missing [0, 0, 0]) \<and>
   list_all is_nan (time_series P_missing 0 0) \<and>
   (\<exists>h. slp_to_ibe P_missing rho_default g_default PyNone = Inr h \<and>
        is_nan (cell h [0, 0, 0]) \<and> list_all is_nan (time_series h 0 0))"
proof -
  have w: "wf_array P_missing" and s: "shape P_missing = [2, 1, 2]"
    by (simp_all add: wf_array_def P_missing_def)
  note d = defaults_positive
  have n: "is_nan (cell P_missing [0, 0, 0])"
    by (simp add: cell_def P_missing_def)
  have ts: "time_series P_missing 0 0 = [NaN, NaN]"
    by (simp add: time_series_def cell_def P_missing_def upt_rec numeral_2_eq_2)
  obtain h where h: "slp_to_ibe P_missing rho_default g_default PyNone = Inr h"
    and a: "\<forall>t<2. \<forall>y<1. \<forall>x<2. is_nan (cell P_missing [t, y, x]) \<longrightarrow> is_nan (cell h [t, y, x])"
    and b: "\<forall>y<1. \<forall>x<2. (\<forall>v\<in>set (time_series P_missing y x). is_nan v) \<longrightarrow>
                     (\<forall>v\<in>set (time_series h y x). is_nan v)"
    using slp_to_ibe_nan_propagates[OF w s d, of PyNone] by blast
  have "is_nan (cell h [0, 0, 0])"
    using a[rule_format, of 0 0 0] n by simp
  moreover have "list_all is_nan (time_series h 0 0)"
    using b[rule_format, of 0 0] by (simp add: ts list_all_iff)
  ultimately show ?thesis using w s d n h by (simp add: ts)
qed

text \<open>
  Claim C3. The array returned for a pressure array of shape (time, lat, lon) has the
  shape of the input, axis for axis, and as many cells as that shape asks for. The number
  of time steps may even be zero. \<open>rho\<close> and \<open>g\<close> are positive with a float64
  product that is not zero, as the defaults are.
\<close>

theorem slp_to_ibe_shape:
  assumes "wf_array P" and "shape P = [T, Y, X]" and "0 < rho" and "0 < g"
    and "underflow_bound < rho * g"
  shows "\<exists>h. slp_to_ibe P rho g P_ref = Inr h \<and> shape h = shape P \<and> wf_array h"
proof -
  have nz: "py_mul rho g \<noteq> Val 0" by (rule py_mul_positive[OF assms(3-5)])
  obtain h where h: "slp_to_ibe P rho g P_ref = Inr h"
    using slp_3d[OF assms(2) nz, of P_ref] by simp
  with slp_3d_wf[OF assms(2) nz h] assms(2) show ?thesis by simp
qed

theorem slp_to_ibe_shape_witness:
  "wf_array P_example \<and> shape P_example = [2, 2, 2] \<and>
   0 < rho_default \<and> 0 < g_default \<and> underflow_bound < rho_default * g_default \<and>
   (\<exists>h. slp_to_ibe P_example rho_default g_default PyNone = Inr h \<and> shape h = [2, 2, 2])"
proof -
  note w = P_example_wf(1) and s = P_example_wf(2)
  note d = defaults_positive
  from slp_to_ibe_shape[OF w s d, of PyNone] w s d show ?thesis by auto
qed


subsection \<open>Arrays that are not 3-dimensional\<close>

text \<open>
  The body has no check of the number of dimensions. What happens to an array that is not
  3-dimensional is decided by the numpy operations themselves: the reduction accepts any
  array of floats, the index expression needs two axes in the reduced array, and from
  three axes on the broadcasting subtraction goes through.
\<close>

lemma slp_low_rank:
  assumes r: "ndim P < 3" and nz: "py_mul rho g \<noteq> Val 0"
  shows "\<exists>m. nanmean_axis0 P = Inr m" and "slp_to_ibe P rho g pr = Inl IndexError"
proof -
  show "\<exists>m. nanmean_axis0 P = Inr m"
    by (cases "shape P") (simp_all add: nanmean_axis0_def Let_def)
  show "slp_to_ibe P rho g pr = Inl IndexError"
  proof (cases "shape P")
    case Nil
    then show ?thesis
      using nz
      by (simp add: slp_to_ibe_def nanmean_axis0_def py_div_def index_newaxis_def ndim_def)
  next
    case (Cons n rest)
    with r have "length rest < 2" by (simp add: ndim_def)
    with Cons nz show ?thesis
      by (simp add: slp_to_ibe_def nanmean_axis0_def Let_def py_div_def index_newaxis_def
          ndim_def)
  qed
qed

text \<open>
  Claim C4 as stated fails. A 4-dimensional array is not refused: the call returns an
  array of the same shape. A 2-dimensional array is refused, but only by the index
  expression, after the temporal mean has been computed.
\<close>

theorem slp_to_ibe_rank4_counterexample:
  "wf_array P_4d \<and> ndim P_4d = 4 \<and>
   slp_to_ibe P_4d rho_default g_default PyNone =
     Inr \<lparr>shape = [2, 1, 1, 1],
          cells = [Val (100 / (rho_default * g_default)),
                   Val (- 100 / (rho_default * g_default))]\<rparr> \<and>
   wf_array P_2d \<and> ndim P_2d = 2 \<and>
   nanmean_axis0 P_2d = Inr \<lparr>shape = [2], cells = [Val 101400, Val 101400]\<rparr> \<and>
   slp_to_ibe P_2d rho_default g_default PyNone = Inl IndexError"
proof -
  note nz = py_mul_default_nonzero
  have s4: "shape P_4d = 2 # [1, 1, 1]" by (simp add: P_4d_def)
  have m: "nanmean_1d [Val 101300, Val 101500] = Val 101400"
    by (simp add: nanmean_1d_def fsum_def float64_def overflow_bound_def)
  have "slp_to_ibe P_4d rho_default g_default PyNone =
     Inr \<lparr>shape = [2, 1, 1, 1],
          cells = [Val (100 / (rho_default * g_default)),
                   Val (- 100 / (rho_default * g_default))]\<rparr>"
    unfolding slp_general[OF s4 _ nz, simplified] scalar_default
    by (simp add: upt_rec numeral_2_eq_2 P_4d_def m)
       (simp add: fsub_def float64_def overflow_bound_def rho_default_def g_default_def)
  moreover have "nanmean_axis0 P_2d = Inr \<lparr>shape = [2], cells = [Val 101400, Val 101400]\<rparr>"
    by (simp add: nanmean_axis0_def P_2d_def upt_rec numeral_2_eq_2 m)
  moreover have "slp_to_ibe P_2d rho_default g_default PyNone = Inl IndexError"
    by (rule slp_low_rank(2)[OF _ nz]) (simp add: ndim_def P_2d_def)
  ultimately show ?thesis
    by (simp add: wf_array_def ndim_def P_4d_def P_2d_def)
qed

text \<open>
  Claim C4, as the code has it. With the default \<open>rho\<close> and \<open>g\<close>, an array of floats
  with fewer than three dimensions fails with an index error, raised when the temporal
  mean, already computed, is indexed with \<open>[np.newaxis, :, :]\<close>; an array of four or
  more dimensions does not fail, and the result has its shape.
\<close>

theorem slp_to_ibe_other_ranks:
  "(ndim P < 3 \<longrightarrow>
      (\<exists>m. nanmean_axis0 P = Inr m) \<and>
      slp_to_ibe P rho_default g_default P_ref = Inl IndexError) \<and>
   (4 \<le> ndim P \<longrightarrow>
      (\<exists>h. slp_to_ibe P rho_default g_default P_ref = Inr h \<and> shape h = shape P))"
proof (intro conjI impI)
  note nz = py_mul_default_nonzero
  {
    assume a: "ndim P < 3"
    show "\<exists>m. nanmean_axis0 P = Inr m" by (rule slp_low_rank(1)[OF a nz])
    show "slp_to_ibe P rho_default g_default P_ref = Inl IndexError"
      by (rule slp_low_rank(2)[OF a nz])
  }
  assume a: "4 \<le> ndim P"
  then obtain n rest where sh: "shape P = n # rest"
    by (cases "shape P") (auto simp: ndim_def)
  with a have r: "2 \<le> length rest" by (auto simp: ndim_def)
  show "\<exists>h. slp_to_ibe P rho_default g_default P_ref = Inr h \<and> shape h = shape P"
    unfolding slp_general[OF sh r nz] by (simp add: sh)
qed

theorem slp_to_ibe_other_ranks_witness:
  "ndim P_0d = 0 \<and> slp_to_ibe P_0d rho_default g_default PyNone = Inl IndexError \<and>
   ndim P_1d = 1 \<and> slp_to_ibe P_1d rho_default g_default PyNone = Inl IndexError \<and>
   ndim P_2d = 2 \<and> slp_to_ibe P_2d rho_default g_default PyNone = Inl IndexError \<and>
   ndim P_4d = 4 \<and>
   (\<exists>h. slp_to_ibe P_4d rho_default g_default PyNone = Inr h \<and> shape h = [2, 1, 1, 1])"
proof -
  have n: "ndim P_0d = 0" "ndim P_1d = 1" "ndim P_2d = 2" "ndim P_4d = 4"
    by (simp_all add: ndim_def P_0d_def P_1d_def P_2d_def P_4d_def)
  have s: "shape P_4d = [2, 1, 1, 1]" by (simp add: P_4d_def)
  from slp_to_ibe_other_ranks[of P_0d PyNone]
       slp_to_ibe_other_ranks[of P_1d PyNone]
       slp_to_ibe_other_ranks[of P_2d PyNone]
       slp_to_ibe_other_ranks[of P_4d PyNone]
  show ?thesis by (simp add: n s)
qed

subsection \<open>Algebraic laws\<close>





























subsection \<open>The output file name\<close>

lemma str_replace_miss:
  "\<not> prefix old (c # cs) \<Longrightarrow> str_replace old new (c # cs) = c # str_replace old new cs"
  by (cases old) auto

lemma str_replace_hit:
  "old \<noteq> [] \<Longrightarrow> prefix old (c # cs) \<Longrightarrow>
   str_replace old new (c # cs) = new @ str_replace old new (drop (length old) (c # cs))"
  by (cases old) simp_all

lemma str_replace_absent:
  "old \<noteq> [] \<Longrightarrow> \<not> sublist old s \<Longrightarrow> str_replace old new s = s"
proof (induction s)
  case Nil
  then show ?case by (cases old) simp_all
next
  case (Cons c cs)
  from Cons.prems(2) have np: "\<not> prefix old (c # cs)" and ns: "\<not> sublist old cs"
    by (simp_all add: sublist_Cons_right)
  have "str_replace old new cs = cs"
    by (rule Cons.IH[OF Cons.prems(1) ns])
  then show ?case
    by (simp only: str_replace_miss[OF np])
qed

lemma sublist_append_disjoint:
  assumes "sublist old (s @ t)" and "old \<noteq> []" and "set old \<inter> set t = {}"
  shows "sublist old s"
proof -
  from assms(1) consider "sublist old s" | "sublist old t"
    | xs1 xs2 where "old = xs1 @ xs2" "suffix xs1 s" "prefix xs2 t"
    by (auto simp: sublist_append)
  then show ?thesis
  proof cases
    case 1
    then show ?thesis .
  next
    case 2
    then have "set old \<subseteq> set t" by (rule set_mono_sublist)
    with assms(2,3) show ?thesis by (cases old) auto
  next
    case 3
    show ?thesis
    proof (cases xs2)
      case Nil
      with 3 show ?thesis by (auto simp: suffix_def)
    next
      case (Cons x xs)
      with 3(3) have "x \<in> set t" by (auto simp: prefix_def)
      moreover from Cons 3(1) have "x \<in> set old" by simp
      ultimately show ?thesis using assms(3) by auto
    qed
  qed
qed

lemma replace_prefix_token:
  assumes "\<not> sublist ''SLP_'' stem"
  shows "str_replace ''SLP_'' ''IBE_'' (''SLP_'' @ stem @ ''.nc'') = ''IBE_'' @ stem @ ''.nc''"
proof -
  have "\<not> sublist ''SLP_'' (stem @ ''.nc'')"
    using sublist_append_disjoint[of "''SLP_''" stem "''.nc''"] assms by auto
  then have "str_replace ''SLP_'' ''IBE_'' (stem @ ''.nc'') = stem @ ''.nc''"
    by (intro str_replace_absent) simp_all
  moreover have "str_replace ''SLP_'' ''IBE_'' (''SLP_'' @ stem @ ''.nc'')
      = ''IBE_'' @ str_replace ''SLP_'' ''IBE_'' (stem @ ''.nc'')"
    using str_replace_hit[of "''SLP_''" "CHR ''S''" "''LP_'' @ stem @ ''.nc''" "''IBE_''"]
    by simp
  ultimately show ?thesis by (simp only:)
qed

lemma not_prefix_nc_append:
  assumes "\<not> prefix ''.nc'' s" and "s \<noteq> []"
  shows "\<not> prefix ''.nc'' (s @ ''.nc'')"
  using assms by (auto simp: prefix_append Cons_eq_append_conv append_eq_Cons_conv)

lemma replace_extension:
  "\<not> sublist ''.nc'' stem \<Longrightarrow> str_replace ''.nc'' ''.h5'' (stem @ ''.nc'') = stem @ ''.h5''"
proof (induction stem)
  case Nil
  then show ?case by simp
next
  case (Cons c cs)
  from Cons.prems have np: "\<not> prefix ''.nc'' (c # cs)" and ns: "\<not> sublist ''.nc'' cs"
    by (simp_all add: sublist_Cons_right)
  from not_prefix_nc_append[OF np] have "\<not> prefix ''.nc'' (c # (cs @ ''.nc''))" by simp
  from str_replace_miss[OF this] Cons.IH[OF ns] show ?case by simp
qed

lemma outfile_name_stem:
  assumes "\<not> sublist ''SLP_'' stem" and "\<not> sublist ''.nc'' stem"
  shows "outfile_name (''SLP_'' @ stem @ ''.nc'') = ''IBE_'' @ stem @ ''.h5''"
proof -
  have "str_replace ''.nc'' ''.h5'' (''IBE_'' @ stem @ ''.nc'')
      = ''IBE_'' @ str_replace ''.nc'' ''.h5'' (stem @ ''.nc'')"
    by (simp add: str_replace_miss)
  then show ?thesis
    unfolding outfile_name_def replace_prefix_token[OF assms(1)]
    by (simp only: replace_extension[OF assms(2)])
qed

text \<open>
  Claim C8 as stated fails. The replacement is of substrings, not of a prefix and an
  extension: a second \<open>.nc\<close> inside the name is rewritten as well, where the derivation
  by prefix and extension keeps it.
\<close>

theorem outfile_name_counterexample:
  "outfile_name ''SLP_era.ncep.nc'' = ''IBE_era.h5ep.h5'' \<and>
   spec_outfile_name ''SLP_era.ncep.nc'' = ''IBE_era.ncep.h5'' \<and>
   outfile_name ''SLP_era.ncep.nc'' \<noteq> spec_outfile_name ''SLP_era.ncep.nc''"
  by (simp add: outfile_name_def spec_outfile_name_def suffix_def)

subsection \<open>main\<close>

lemma bind_err_Inr: "bind_err m f = Inr y \<longleftrightarrow> (\<exists>x. m = Inr x \<and> f x = Inr y)"
  by (cases m) (simp_all add: bind_err_def)

lemma lookup_Inr: "lookup e m k = Inr v \<longleftrightarrow> m k = Some v"
  by (simp add: lookup_def split: option.splits)

lemma np_diff_Inr: "np_diff A = Inr u \<longleftrightarrow> ndim A \<noteq> 0"
  by (simp add: np_diff_def)

lemma main_Inr:
  assumes "main argv files = Inr (outfile, dsets)"
  shows "\<exists>ds vlon vlat vtime msl ibe.
           files (infile_of argv) = Some ds \<and>
           ds XIBE = Some vlon \<and> ds YIBE = Some vlat \<and> ds TIBE = Some vtime \<and>
           ds ZIBE = Some msl \<and>
           slp_to_ibe (var_data msl) rho_default g_default PyNone = Inr ibe \<and>
           outfile = outfile_name (infile_of argv) \<and>
           dsets = [(''lon'', var_data vlon), (''lat'', var_data vlat),
                    (''time'', var_data vtime), (''ibe'', ibe)]"
  using assms unfolding main_def Let_def bind_err_Inr lookup_Inr np_diff_Inr
  by (elim exE conjE) auto

lemma main_example_run:
  "\<exists>ibe. main argv_example files_example =
     Inr (''IBE_antarctica_3h_19900101_20171031.h5'',
          [(''lon'', lon_example), (''lat'', lat_example), (''time'', time_example),
           (''ibe'', ibe)])"
proof -
  note nz = py_mul_default_nonzero
  have s: "shape P_example = [2, 2, 2]" by (simp add: P_example_def)
  have i: "infile_of argv_example = ''SLP_antarctica_3h_19900101_20171031.nc''"
    by (simp add: infile_of_def argv_example_def)
  have o: "outfile_name ''SLP_antarctica_3h_19900101_20171031.nc''
         = ''IBE_antarctica_3h_19900101_20171031.h5''"
    by (simp add: outfile_name_def)
  show ?thesis
    unfolding main_def Let_def i o
    by (simp add: bind_err_def lookup_def np_diff_def ndim_def files_example_def
        dataset_example_def XIBE_def YIBE_def TIBE_def ZIBE_def slp_3d[OF s nz]
        lon_example_def lat_example_def time_example_def)
qed

text \<open>
  Claim C8, as the code has it. In every run of \<open>main\<close> that completes, the name of
  the output file is the name of the input file with every occurrence of \<open>SLP_\<close>
  replaced by \<open>IBE_\<close> and then every occurrence of \<open>.nc\<close> replaced by \<open>.h5\<close>.
  For an input name \<open>SLP_\<close> + stem + \<open>.nc\<close> whose stem contains neither \<open>SLP_\<close>
  nor \<open>.nc\<close> this is \<open>IBE_\<close> + stem + \<open>.h5\<close>: the prefix and the extension are
  replaced and the rest of the name is unchanged.
\<close>

theorem main_outfile_name:
  assumes "main argv files = Inr (outfile, dsets)"
  shows "outfile = str_replace ''.nc'' ''.h5'' (str_replace ''SLP_'' ''IBE_'' (infile_of argv)) \<and>
         (\<forall>stem. infile_of argv = ''SLP_'' @ stem @ ''.nc'' \<and>
                 \<not> sublist ''SLP_'' stem \<and> \<not> sublist ''.nc'' stem \<longrightarrow>
                 outfile = ''IBE_'' @ stem @ ''.h5'')"
proof -
  from main_Inr[OF assms] have o: "outfile = outfile_name (infile_of argv)" by blast
  show ?thesis
  proof (intro conjI allI impI)
    show "outfile = str_replace ''.nc'' ''.h5'' (str_replace ''SLP_'' ''IBE_'' (infile_of argv))"
      by (simp only: o outfile_name_def)
  next
    fix stem
    assume a: "infile_of argv = ''SLP_'' @ stem @ ''.nc'' \<and>
               \<not> sublist ''SLP_'' stem \<and> \<not> sublist ''.nc'' stem"
    then have "outfile_name (''SLP_'' @ stem @ ''.nc'') = ''IBE_'' @ stem @ ''.h5''"
      by (intro outfile_name_stem) simp_all
    with a show "outfile = ''IBE_'' @ stem @ ''.h5''"
      by (simp only: o)
  qed
qed

theorem main_outfile_name_witness:
  "\<exists>dsets. main argv_example files_example =
      Inr (''IBE_'' @ ''antarctica_3h_19900101_20171031'' @ ''.h5'', dsets)"
proof -
  from main_example_run obtain outfile dsets
    where m: "main argv_example files_example = Inr (outfile, dsets)" by blast
  have i: "infile_of argv_example = ''SLP_'' @ ''antarctica_3h_19900101_20171031'' @ ''.nc''"
    by (simp add: infile_of_def argv_example_def)
  have n: "\<not> sublist ''SLP_'' ''antarctica_3h_19900101_20171031''"
          "\<not> sublist ''.nc'' ''antarctica_3h_19900101_20171031''"
    by (simp_all add: sublist_code)
  from main_outfile_name[OF m] i n
  have "outfile = ''IBE_'' @ ''antarctica_3h_19900101_20171031'' @ ''.h5''"
    by blast
  with m show ?thesis by blast
qed

text \<open>
  Claim C9. In every run of \<open>main\<close> that completes, the datasets \<open>lon\<close>, \<open>lat\<close>
  and \<open>time\<close> created in the output file hold the arrays read from the variables
  \<open>longitude\<close>, \<open>latitude\<close> and \<open>time\<close> of the input file, unchanged.
\<close>

theorem main_coordinates_unchanged:
  assumes "main argv files = Inr (outfile, dsets)"
  shows "\<exists>ds vlon vlat vtime.
           files (infile_of argv) = Some ds \<and>
           ds XIBE = Some vlon \<and> ds YIBE = Some vlat \<and> ds TIBE = Some vtime \<and>
           map_of dsets ''lon'' = Some (var_data vlon) \<and>
           map_of dsets ''lat'' = Some (var_data vlat) \<and>
           map_of dsets ''time'' = Some (var_data vtime)"
proof -
  from main_Inr[OF assms] obtain ds vlon vlat vtime msl ibe where
    "files (infile_of argv) = Some ds" "ds XIBE = Some vlon" "ds YIBE = Some vlat"
    "ds TIBE = Some vtime"
    "dsets = [(''lon'', var_data vlon), (''lat'', var_data vlat),
              (''time'', var_data vtime), (''ibe'', ibe)]"
    by blast
  then show ?thesis by simp
qed

theorem main_coordinates_unchanged_witness:
  "\<exists>outfile dsets. main argv_example files_example = Inr (outfile, dsets) \<and>
     map_of dsets ''lon'' = Some lon_example \<and>
     map_of dsets ''lat'' = Some lat_example \<and>
     map_of dsets ''time'' = Some time_example"
proof -
  from main_example_run obtain outfile dsets
    where m: "main argv_example files_example = Inr (outfile, dsets)" by blast
  have i: "infile_of argv_example = ''SLP_antarctica_3h_19900101_20171031.nc''"
    by (simp add: infile_of_def argv_example_def)
  from main_coordinates_unchanged[OF m] have
    "map_of dsets ''lon'' = Some lon_example \<and>
     map_of dsets ''lat'' = Some lat_example \<and>
     map_of dsets ''time'' = Some time_example"
    unfolding i
    by (auto simp: files_example_def dataset_example_def XIBE_def YIBE_def TIBE_def)
  with m show ?thesis by blast
qed

end
